theory Spec2Isabelle
  imports Main "HOL-Library.Word"
begin

section \<open>JavaScript strings\<close>

text \<open>
  A JavaScript string is a sequence of 16-bit UTF-16 code units; \<open>s.length\<close> counts code
  units and \<open>s.slice\<close> cuts between them. Literals of the source that are not ASCII are
  written out by their code units.
\<close>

type_synonym jsstring = "16 word list"

definition js :: "string \<Rightarrow> jsstring" where
  "js cs = map (\<lambda>c. of_nat (of_char c)) cs"

text \<open>The characters \<open>String.prototype.trim\<close> strips: WhiteSpace and LineTerminator.\<close>

definition isWhiteSpace :: "16 word \<Rightarrow> bool" where
  "isWhiteSpace c \<longleftrightarrow>
     c \<in> set [0x09, 0x0A, 0x0B, 0x0C, 0x0D, 0x20, 0xA0, 0x1680,
               0x2000, 0x2001, 0x2002, 0x2003, 0x2004, 0x2005, 0x2006, 0x2007,
               0x2008, 0x2009, 0x200A, 0x2028, 0x2029, 0x202F, 0x205F, 0x3000, 0xFEFF]"

definition trim :: "jsstring \<Rightarrow> jsstring" where
  "trim s = rev (dropWhile isWhiteSpace (rev (dropWhile isWhiteSpace s)))"

text \<open>
  \<open>s.slice(start, end)\<close> on integer arguments: a negative index counts from the end,
  both are clamped to the string.
\<close>

definition slice :: "jsstring \<Rightarrow> int \<Rightarrow> int \<Rightarrow> jsstring" where
  "slice s start end' =
     (let len = int (length s);
          from = (if start < 0 then max (len + start) 0 else min start len);
          to = (if end' < 0 then max (len + end') 0 else min end' len)
      in take (nat (max (to - from) 0)) (drop (nat from) s))"

text \<open>
  \<open>arr.join(sep)\<close> on an array of strings, as the language defines it: a loop over the
  index \<open>k\<close> that appends the separator before every element but the first.
\<close>

fun join_loop :: "jsstring \<Rightarrow> jsstring \<Rightarrow> nat \<Rightarrow> jsstring list \<Rightarrow> jsstring" where
  "join_loop sep R k [] = R"
| "join_loop sep R k (x # xs) = join_loop sep ((if k > 0 then R @ sep else R) @ x) (k + 1) xs"

definition join :: "jsstring \<Rightarrow> jsstring list \<Rightarrow> jsstring" where
  "join sep xs = join_loop sep [] 0 xs"

text \<open>The decimal rendering of a non-negative integer, as a template literal inserts it.\<close>

definition digit :: "nat \<Rightarrow> 16 word" where
  "digit d = of_nat (48 + d)"

fun decimal :: "nat \<Rightarrow> jsstring" where
  "decimal n = (if n < 10 then [digit n] else decimal (n div 10) @ [digit (n mod 10)])"

section \<open>Data model\<close>

text \<open>
  \<^verbatim>\<open>export type Part = { text: string };\<close>
  \<^verbatim>\<open>export type ChatMsg = { role: 'user' | 'model'; parts: Part[] };\<close>
  The field \<open>text\<close> is written \<open>ptext\<close> here.
\<close>

datatype Role = User | Model

record Part =
  ptext :: jsstring

record ChatMsg =
  role :: Role
  parts :: "Part list"

text \<open>The objects \<open>{ role, content }\<close> that \<open>toOpenAIMessages\<close> builds.\<close>

record OpenAIMessage =
  oa_role :: jsstring
  content :: jsstring

section \<open>The message transformer\<close>

definition toOpenAIMessages :: "ChatMsg list \<Rightarrow> OpenAIMessage list" where
  "toOpenAIMessages h =
     map (\<lambda>msg. \<lparr>oa_role = (if role msg = Model then js ''assistant'' else js ''user''),
                 content = join [0x0A] (map ptext (parts msg))\<rparr>) h"

section \<open>Truncation for display\<close>

definition ellipsis :: "16 word" where
  "ellipsis = 0x2026"

text \<open>
  \<open>safeShort(s, n = 300)\<close>. On a string neither \<open>s.length\<close>, \<open>s.slice\<close> nor \<open>+\<close>
  throws, so the \<open>catch\<close> branch, which would return the empty string, is never taken.
\<close>

definition safeShort :: "jsstring \<Rightarrow> int \<Rightarrow> jsstring" where
  "safeShort s n =
     (if s = [] then []
      else if int (length s) > n then slice s 0 n @ [ellipsis] else s)"

definition safeShort_default :: "int" where
  "safeShort_default = 300"

section \<open>Component state and effects\<close>

text \<open>
  The \<open>useState\<close> cells of the component \<open>AItest\<close>, and the browser's
  \<open>localStorage\<close>, which the handlers write.
\<close>

record state =
  model :: jsstring
  history :: "ChatMsg list"
  input :: jsstring
  apiKey :: jsstring
  rememberKey :: bool
  loading :: bool
  error :: jsstring
  localStorage :: "jsstring \<rightharpoonup> jsstring"

text \<open>The body of the \<open>POST\<close> is kept structured, before \<open>JSON.stringify\<close>.\<close>

record Request =
  url :: jsstring
  http_method :: jsstring
  authorization :: jsstring
  content_type :: jsstring
  body_model :: jsstring
  body_messages :: "OpenAIMessage list"

text \<open>
  What a handler does, in the order it does it: calls of the state setters
  (\<open>setHistory\<close> with a value, or with an updater function), writes to
  \<open>localStorage\<close>, and the call of \<open>fetch\<close>.
\<close>

datatype effect =
    SetModel jsstring
  | SetHistory "ChatMsg list"
  | UpdateHistory "ChatMsg list \<Rightarrow> ChatMsg list"
  | SetInput jsstring
  | SetApiKey jsstring
  | SetRememberKey bool
  | SetLoading bool
  | SetError jsstring
  | StorageSetItem jsstring jsstring
  | StorageRemoveItem jsstring
  | Fetch Request

fun apply_effect :: "effect \<Rightarrow> state \<Rightarrow> state" where
  "apply_effect (SetModel v) s = s\<lparr>model := v\<rparr>"
| "apply_effect (SetHistory h) s = s\<lparr>history := h\<rparr>"
| "apply_effect (UpdateHistory f) s = s\<lparr>history := f (history s)\<rparr>"
| "apply_effect (SetInput v) s = s\<lparr>input := v\<rparr>"
| "apply_effect (SetApiKey v) s = s\<lparr>apiKey := v\<rparr>"
| "apply_effect (SetRememberKey b) s = s\<lparr>rememberKey := b\<rparr>"
| "apply_effect (SetLoading b) s = s\<lparr>loading := b\<rparr>"
| "apply_effect (SetError e) s = s\<lparr>error := e\<rparr>"
| "apply_effect (StorageSetItem k v) s = s\<lparr>localStorage := (localStorage s)(k \<mapsto> v)\<rparr>"
| "apply_effect (StorageRemoveItem k) s = s\<lparr>localStorage := (localStorage s)(k := None)\<rparr>"
| "apply_effect (Fetch r) s = s"

definition run :: "effect list \<Rightarrow> state \<Rightarrow> state" where
  "run tr s = fold apply_effect tr s"

fun is_fetch :: "effect \<Rightarrow> bool" where
  "is_fetch (Fetch r) = True"
| "is_fetch e = False"

fun is_history_write :: "effect \<Rightarrow> bool" where
  "is_history_write (SetHistory h) = True"
| "is_history_write (UpdateHistory f) = True"
| "is_history_write e = False"

section \<open>The response of the API, as the code reads it\<close>

text \<open>
  A thrown value is an \<open>Error\<close> object with a name and a message; the \<open>catch\<close>
  block shows \<open>err?.message || String(err)\<close>.
\<close>

datatype js_error = Error (err_name: jsstring) (message: jsstring)

definition toString :: "js_error \<Rightarrow> jsstring" where
  "toString err =
     (if err_name err = [] then message err
      else if message err = [] then err_name err
      else err_name err @ js '': '' @ message err)"

definition error_text :: "js_error \<Rightarrow> jsstring" where
  "error_text err = (if message err \<noteq> [] then message err else toString err)"

text \<open>
  The parsed body, in the shape \<open>data?.choices?.[0]?.message?.content\<close> reads, every
  level possibly absent (\<open>None\<close> stands for \<open>undefined\<close> and \<open>null\<close>, and a
  value without the property reads as one where it is absent); the content is a string,
  as the annotation \<open>const reply: string\<close> takes it to be.
\<close>

record CompletionMessage =
  cm_content :: "jsstring option"

record Choice =
  ch_message :: "CompletionMessage option"

record Completion =
  choices :: "Choice list option"

definition first :: "'a list \<Rightarrow> 'a option" where
  "first xs = (case xs of [] \<Rightarrow> None | x # _ \<Rightarrow> Some x)"

definition first_content :: "Completion option \<Rightarrow> jsstring option" where
  "first_content data =
     Option.bind (Option.bind (Option.bind (Option.bind data choices) first) ch_message) cm_content"

text \<open>
  A response: \<open>resp.ok\<close>, \<open>resp.status\<close>, and what \<open>await resp.text()\<close> and
  \<open>await resp.json()\<close> give, each of which may reject. \<open>fetch\<close> itself rejects on
  a network fault.
\<close>

record Response =
  ok :: bool
  status :: nat
  resp_text :: "js_error + jsstring"
  resp_json :: "js_error + Completion option"

datatype fetch_result = Rejected js_error | Resolved Response

section \<open>Sending a message\<close>

definition missing_key_message :: jsstring where
  "missing_key_message =
     [0x8ACB, 0x5148, 0x8F38, 0x5165, 0x6709, 0x6548, 0x7684, 0x20] @ js ''OpenAI API Key''"

definition http_error_message :: "nat \<Rightarrow> jsstring \<Rightarrow> jsstring" where
  "http_error_message st errText =
     js ''OpenAI API '' @ [0x932F, 0x8AA4, 0xFF08] @ js ''HTTP '' @ decimal st @ [0xFF09, 0xFF1A]
       @ safeShort errText safeShort_default"

definition no_content :: jsstring where
  "no_content = js ''[No content]''"

definition user_message :: "jsstring \<Rightarrow> ChatMsg" where
  "user_message content' = \<lparr>role = User, parts = [\<lparr>ptext = content'\<rparr>]\<rparr>"

definition model_message :: "jsstring \<Rightarrow> ChatMsg" where
  "model_message reply = \<lparr>role = Model, parts = [\<lparr>ptext = reply\<rparr>]\<rparr>"

text \<open>
  \<open>sendMessage(message?)\<close> up to the call of \<open>fetch\<close>: the part that runs inside the
  event handler. \<open>None\<close> is the call without an argument, which reads the input field.
\<close>

definition sendMessage :: "state \<Rightarrow> jsstring option \<Rightarrow> effect list" where
  "sendMessage s message' =
     (let content' = trim (case message' of None \<Rightarrow> input s | Some m \<Rightarrow> m) in
      if content' = [] \<or> loading s then []
      else if apiKey s = [] then [SetError missing_key_message]
      else
        let newHistory = history s @ [user_message content'];
            messages = toOpenAIMessages newHistory
        in [SetError [], SetLoading True, SetHistory newHistory, SetInput [],
            Fetch \<lparr>url = js ''https://api.openai.com/v1/chat/completions'',
                   http_method = js ''POST'',
                   authorization = js ''Bearer '' @ apiKey s,
                   content_type = js ''application/json'',
                   body_model = model s,
                   body_messages = messages\<rparr>])"

text \<open>
  The rest of the \<open>try\<close> block, once \<open>fetch\<close> has settled: the reply, or the value
  thrown.
\<close>

definition try_block :: "fetch_result \<Rightarrow> js_error + jsstring" where
  "try_block r =
     (case r of
        Rejected err \<Rightarrow> Inl err
      | Resolved resp \<Rightarrow>
          if \<not> ok resp then
            (case resp_text resp of
               Inl err \<Rightarrow> Inl err
             | Inr errText \<Rightarrow> Inl (Error (js ''Error'') (http_error_message (status resp) errText)))
          else
            (case resp_json resp of
               Inl err \<Rightarrow> Inl err
             | Inr data \<Rightarrow>
                 Inr (case first_content data of None \<Rightarrow> no_content | Some c \<Rightarrow> c)))"

text \<open>The continuation of \<open>sendMessage\<close> after the \<open>await\<close>: \<open>try\<close>, \<open>catch\<close>, \<open>finally\<close>.\<close>

definition sendMessage_settled :: "fetch_result \<Rightarrow> effect list" where
  "sendMessage_settled r =
     (case try_block r of
        Inr reply \<Rightarrow> [UpdateHistory (\<lambda>h. h @ [model_message reply])]
      | Inl err \<Rightarrow> [SetError (error_text err)])
     @ [SetLoading False]"

section \<open>The credential and its persisted copy\<close>

definition storage_key :: jsstring where
  "storage_key = js ''openai_api_key''"

text \<open>The \<open>onChange\<close> handlers of the key field and of the checkbox.\<close>

definition onApiKeyChange :: "state \<Rightarrow> jsstring \<Rightarrow> effect list" where
  "onApiKeyChange s v =
     SetApiKey v # (if rememberKey s then [StorageSetItem storage_key v] else [])"

definition onRememberChange :: "state \<Rightarrow> bool \<Rightarrow> effect list" where
  "onRememberChange s checked =
     SetRememberKey checked #
       (if \<not> checked then [StorageRemoveItem storage_key]
        else if apiKey s \<noteq> [] then [StorageSetItem storage_key (apiKey s)]
        else [])"

section \<open>The component as a transition system\<close>

text \<open>
  A handler is a closure of the render that created it: it reads the state constants of
  that render (\<open>loading\<close>, \<open>history\<close>, \<open>apiKey\<close>, ...), while the setters it calls
  act on the state that the next render will show. A session therefore carries the state
  as the setters have left it, the state as last rendered, and the number of calls of
  \<open>fetch\<close> that have not settled yet. The event \<open>Render\<close> is the component rendering
  again; the continuation of \<open>sendMessage\<close> reads no state constant.
\<close>

record session =
  current :: state
  rendered :: state
  unsettled :: nat

datatype event =
    Render
  | Submit "jsstring option"
  | Settle fetch_result
  | ApiKeyChange jsstring
  | RememberChange bool
  | ModelChange jsstring
  | InputChange jsstring

fun step :: "event \<Rightarrow> session \<Rightarrow> session" where
  "step Render w = w\<lparr>rendered := current w\<rparr>"
| "step (Submit m) w =
     (let tr = sendMessage (rendered w) m
      in w\<lparr>current := run tr (current w),
           unsettled := unsettled w + length (filter is_fetch tr)\<rparr>)"
| "step (Settle r) w =
     (if unsettled w = 0 then w
      else w\<lparr>current := run (sendMessage_settled r) (current w),
             unsettled := unsettled w - 1\<rparr>)"
| "step (ApiKeyChange v) w = w\<lparr>current := run (onApiKeyChange (rendered w) v) (current w)\<rparr>"
| "step (RememberChange b) w = w\<lparr>current := run (onRememberChange (rendered w) b) (current w)\<rparr>"
| "step (ModelChange v) w = w\<lparr>current := run [SetModel v] (current w)\<rparr>"
| "step (InputChange v) w = w\<lparr>current := run [SetInput v] (current w)\<rparr>"

definition steps :: "event list \<Rightarrow> session \<Rightarrow> session" where
  "steps es w = fold step es w"

text \<open>A session that has just rendered the state \<open>s\<close>, with no call of \<open>fetch\<close> open.\<close>

definition fresh :: "state \<Rightarrow> session" where
  "fresh s = \<lparr>current = s, rendered = s, unsettled = 0\<rparr>"

text \<open>
  A course of events in which the component renders between one submission and the next;
  the flag says whether a submission has run since the last render.
\<close>

fun render_between_submits :: "bool \<Rightarrow> event list \<Rightarrow> bool" where
  "render_between_submits stale [] = True"
| "render_between_submits stale (Render # es) = render_between_submits False es"
| "render_between_submits stale (Submit m # es) = (\<not> stale \<and> render_between_submits True es)"
| "render_between_submits stale (e # es) = render_between_submits stale es"

text \<open>
  Mounting: the initial values of the \<open>useState\<close> cells, then the two effects that
  run once, which load the saved key and seed the greeting and the starter text.
\<close>

definition greeting :: jsstring where
  "greeting =
     [0xD83D, 0xDC4B, 0x20, 0x9019, 0x88E1, 0x662F, 0x20] @ js ''OpenAI Chat''
       @ [0xFF0C, 0x5C0F, 0x5E6B, 0x624B, 0x5728, 0x9019, 0xFF01]"

definition initial :: "jsstring \<Rightarrow> (jsstring \<rightharpoonup> jsstring) \<Rightarrow> state" where
  "initial defaultModel store =
     \<lparr>model = defaultModel, history = [], input = [], apiKey = [], rememberKey = True,
      loading = False, error = [], localStorage = store\<rparr>"

definition on_mount :: "jsstring \<Rightarrow> state \<Rightarrow> effect list" where
  "on_mount starter s =
     (case localStorage s storage_key of
        None \<Rightarrow> []
      | Some saved \<Rightarrow> if saved \<noteq> [] then [SetApiKey saved] else [])
     @ [SetHistory [model_message greeting]]
     @ (if starter \<noteq> [] then [SetInput starter] else [])"

definition mounted :: "jsstring \<Rightarrow> jsstring \<Rightarrow> (jsstring \<rightharpoonup> jsstring) \<Rightarrow> state" where
  "mounted defaultModel starter store =
     run (on_mount starter (initial defaultModel store)) (initial defaultModel store)"

section \<open>The transformer's contract, as the specification words it\<close>

text \<open>
  The external name of a role, and the texts of a message's parts joined by newlines:
  the first text, then every further text behind a newline.
\<close>

fun external_role :: "Role \<Rightarrow> jsstring" where
  "external_role Model = js ''assistant''"
| "external_role User = js ''user''"

fun newline_separated :: "jsstring list \<Rightarrow> jsstring" where
  "newline_separated [] = []"
| "newline_separated (x # xs) = x @ concat (map (\<lambda>y. 0x0A # y) xs)"

section \<open>The submission gate\<close>

text \<open>
  One call of \<open>fetch\<close> is open exactly while \<open>loading\<close> is set, and, unless a
  submission has run since the last render, the rendered \<open>loading\<close> is set whenever the
  current one is.
\<close>

definition gate :: "bool \<Rightarrow> session \<Rightarrow> bool" where
  "gate stale w \<longleftrightarrow>
     unsettled w = (if loading (current w) then 1 else 0) \<and>
     (stale \<or> loading (rendered w) \<or> \<not> loading (current w))"

section \<open>Example inputs\<close>

text \<open>
  A session mounted with a saved key and no starter text, a failing response with a given
  body, and a successful response with a given parsed body.
\<close>

abbreviation (input) example_state :: state where
  "example_state \<equiv> mounted (js ''gpt-5'') [] [storage_key \<mapsto> js ''sk-test'']"

abbreviation (input) response_401 :: "jsstring \<Rightarrow> Response" where
  "response_401 body \<equiv>
     \<lparr>ok = False, status = 401, resp_text = Inr body,
      resp_json = Inl (Error (js ''SyntaxError'') (js ''Unexpected token''))\<rparr>"

abbreviation (input) response_200 :: "Completion option \<Rightarrow> Response" where
  "response_200 data \<equiv>
     \<lparr>ok = True, status = 200, resp_text = Inr (js ''(body)''), resp_json = Inr data\<rparr>"

section \<open>Auxiliary facts\<close>

lemmas trace_defs = sendMessage_def sendMessage_settled_def try_block_def run_def Let_def

lemmas example_defs = mounted_def on_mount_def initial_def js_def trim_def isWhiteSpace_def

lemma slice_0: "0 \<le> n \<Longrightarrow> slice s 0 n = take (nat n) s"
  by (auto simp: slice_def Let_def min_def max_def)

lemma length_safeShort: "0 \<le> n \<Longrightarrow> length (safeShort s n) \<le> nat n + 1"
  by (auto simp: safeShort_def slice_0)

lemma join_loop_eq:
  "join_loop sep R k xs =
     (if k > 0 then R @ concat (map (\<lambda>y. sep @ y) xs)
      else (case xs of [] \<Rightarrow> R | x # ys \<Rightarrow> R @ x @ concat (map (\<lambda>y. sep @ y) ys)))"
  by (induction xs arbitrary: R k) (auto split: list.splits)

lemma join_newline: "join [0x0A] xs = newline_separated xs"
proof -
  have "(@) [c] = (#) c" for c :: "16 word"
    by (simp add: fun_eq_iff)
  then show ?thesis
    by (cases xs) (simp_all add: join_def join_loop_eq)
qed

lemma length_http_error_message:
  "length (http_error_message st body) \<le> 21 + length (decimal st) + 301"
  using length_safeShort [of safeShort_default body]
  by (simp add: http_error_message_def js_def safeShort_default_def)

lemma http_error_message_nonempty: "http_error_message st body \<noteq> []"
  by (simp add: http_error_message_def js_def)

lemma gate_Render: "gate stale w \<Longrightarrow> gate False (step Render w)"
  by (simp add: gate_def)

lemma gate_Submit: "gate False w \<Longrightarrow> gate True (step (Submit m) w)"
  by (auto simp: gate_def trace_defs)

lemma gate_Settle: "gate stale w \<Longrightarrow> gate stale (step (Settle r) w)"
  by (auto simp: gate_def sendMessage_settled_def run_def split: sum.splits)

lemma gate_edit:
  "gate stale w \<Longrightarrow> gate stale (step (ApiKeyChange v) w)"
  "gate stale w \<Longrightarrow> gate stale (step (RememberChange b) w)"
  "gate stale w \<Longrightarrow> gate stale (step (ModelChange v) w)"
  "gate stale w \<Longrightarrow> gate stale (step (InputChange v) w)"
  by (auto simp: gate_def onApiKeyChange_def onRememberChange_def run_def)

lemma gate_steps:
  "gate stale w \<Longrightarrow> render_between_submits stale es \<Longrightarrow> unsettled (steps es w) \<le> 1"
proof (induction es arbitrary: stale w)
  case Nil
  then show ?case
    by (simp add: steps_def gate_def)
next
  case (Cons e es)
  have unfold: "steps (e # es) w = steps es (step e w)"
    by (simp add: steps_def)
  show ?case
  proof (cases e)
    case Render
    have "gate False (step e w)"
      unfolding Render using Cons.prems(1) by (rule gate_Render)
    moreover have "render_between_submits False es"
      using Cons.prems(2) Render by simp
    ultimately show ?thesis
      unfolding unfold by (rule Cons.IH)
  next
    case (Submit m)
    from Cons.prems(2) Submit have "\<not> stale" and r: "render_between_submits True es"
      by simp_all
    with Cons.prems(1) have "gate False w"
      by simp
    then have "gate True (step e w)"
      unfolding Submit by (rule gate_Submit)
    then show ?thesis
      unfolding unfold using r by (rule Cons.IH)
  next
    case (Settle r)
    have "gate stale (step e w)"
      unfolding Settle using Cons.prems(1) by (rule gate_Settle)
    moreover have "render_between_submits stale es"
      using Cons.prems(2) Settle by simp
    ultimately show ?thesis
      unfolding unfold by (rule Cons.IH)
  next
    case (ApiKeyChange v)
    have "gate stale (step e w)"
      unfolding ApiKeyChange using Cons.prems(1) by (rule gate_edit)
    moreover have "render_between_submits stale es"
      using Cons.prems(2) ApiKeyChange by simp
    ultimately show ?thesis
      unfolding unfold by (rule Cons.IH)
  next
    case (RememberChange b)
    have "gate stale (step e w)"
      unfolding RememberChange using Cons.prems(1) by (rule gate_edit)
    moreover have "render_between_submits stale es"
      using Cons.prems(2) RememberChange by simp
    ultimately show ?thesis
      unfolding unfold by (rule Cons.IH)
  next
    case (ModelChange v)
    have "gate stale (step e w)"
      unfolding ModelChange using Cons.prems(1) by (rule gate_edit)
    moreover have "render_between_submits stale es"
      using Cons.prems(2) ModelChange by simp
    ultimately show ?thesis
      unfolding unfold by (rule Cons.IH)
  next
    case (InputChange v)
    have "gate stale (step e w)"
      unfolding InputChange using Cons.prems(1) by (rule gate_edit)
    moreover have "render_between_submits stale es"
      using Cons.prems(2) InputChange by simp
    ultimately show ?thesis
      unfolding unfold by (rule Cons.IH)
  qed
qed

lemma example_state_idle:
  "\<not> loading example_state" "apiKey example_state = js ''sk-test''"
  "history example_state = [model_message greeting]" "rememberKey example_state"
  "error example_state = []"
  by (simp_all add: mounted_def on_mount_def initial_def run_def)

lemma example_texts:
  "trim (js '' hi '') = js ''hi''" "trim (js ''hi'') = js ''hi''"
  "js ''hi'' \<noteq> []" "js ''sk-test'' \<noteq> []"
  by (simp_all add: js_def trim_def isWhiteSpace_def)

section \<open>Truncation\<close>

text \<open>
  C10, as the code has it. For a string \<open>s\<close> and a bound \<open>n\<close> that is not negative,
  \<open>safeShort\<close> returns a value: \<open>s\<close> itself when \<open>s\<close> is at most \<open>n\<close> long, and
  otherwise the first \<open>n\<close> code units of \<open>s\<close> followed by one ellipsis; the result is at
  most \<open>n + 1\<close> long.
\<close>

theorem safeShort_spec:
  "0 \<le> n \<Longrightarrow>
     (int (length s) \<le> n \<longrightarrow> safeShort s n = s) \<and>
     (n < int (length s) \<longrightarrow> safeShort s n = take (nat n) s @ [ellipsis]) \<and>
     int (length (safeShort s n)) \<le> n + 1"
proof -
  assume n: "0 \<le> n"
  consider (short) "int (length s) \<le> n" | (long) "n < int (length s)"
    by linarith
  then show ?thesis
  proof cases
    case short
    then have "safeShort s n = s"
      by (simp add: safeShort_def)
    with short show ?thesis
      by simp
  next
    case long
    with n have "s \<noteq> []"
      by auto
    with long n have "safeShort s n = take (nat n) s @ [ellipsis]"
      by (simp add: safeShort_def slice_0)
    with long n show ?thesis
      by simp
  qed
qed

theorem safeShort_spec_witness:
  "(0::int) \<le> 2 \<and> safeShort (js ''ab'') 2 = js ''ab'' \<and>
   safeShort (js ''abc'') 2 = js ''ab'' @ [ellipsis] \<and>
   int (length (safeShort (js ''abc'') 2)) \<le> 2 + 1"
proof -
  have h: "(0::int) \<le> 2" by simp
  show ?thesis
    using safeShort_spec [OF h, of "js ''ab''"] safeShort_spec [OF h, of "js ''abc''"]
    by (simp add: js_def)
qed

text \<open>
  C10, as stated, fails for a negative bound: \<open>slice(0, -1)\<close> drops the last code unit,
  so \<open>safeShort('abc', -1)\<close> is \<open>ab\<close> and the ellipsis, three code units where the
  claim allows \<open>n + 1 = 0\<close>.
\<close>

theorem safeShort_negative_bound:
  "safeShort (js ''abc'') (- 1) = js ''ab'' @ [ellipsis] \<and>
   \<not> int (length (safeShort (js ''abc'') (- 1))) \<le> - 1 + 1"
  by (simp add: safeShort_def slice_def js_def)

section \<open>The message transformer\<close>

text \<open>
  C3. The transformer maps a conversation of length \<open>N\<close> to a sequence of length \<open>N\<close>
  in the same order: the entry at each position carries the external name of the role at
  that position (\<open>model\<close> becomes \<open>assistant\<close>, \<open>user\<close> stays \<open>user\<close>) and, as
  content, the texts of the parts joined by newlines, which for a single part is its text
  unchanged. It is a function of the conversation alone and defined on every conversation.
\<close>

theorem toOpenAIMessages_spec:
  "length (toOpenAIMessages h) = length h \<and>
   (\<forall>i < length h.
      oa_role (toOpenAIMessages h ! i) = external_role (role (h ! i)) \<and>
      content (toOpenAIMessages h ! i) = newline_separated (map ptext (parts (h ! i))) \<and>
      (\<forall>p. parts (h ! i) = [p] \<longrightarrow> content (toOpenAIMessages h ! i) = ptext p))"
proof -
  have r: "(if r = Model then js ''assistant'' else js ''user'') = external_role r" for r
    by (cases r) simp_all
  show ?thesis
    by (simp add: toOpenAIMessages_def join_newline r)
qed

theorem toOpenAIMessages_spec_witness:
  "(let h = [model_message (js ''yo''), user_message (js ''hi''),
             \<lparr>role = Model, parts = [\<lparr>ptext = js ''a''\<rparr>, \<lparr>ptext = js ''b''\<rparr>]\<rparr>]
    in length (toOpenAIMessages h) = 3 \<and> 1 < length h \<and> 2 < length h \<and>
       oa_role (toOpenAIMessages h ! 1) = js ''user'' \<and>
       content (toOpenAIMessages h ! 1) = js ''hi'' \<and>
       oa_role (toOpenAIMessages h ! 2) = js ''assistant'' \<and>
       content (toOpenAIMessages h ! 2) = js ''a'' @ [0x0A] @ js ''b'')"
  using toOpenAIMessages_spec [of "[model_message (js ''yo''), user_message (js ''hi''),
             \<lparr>role = Model, parts = [\<lparr>ptext = js ''a''\<rparr>, \<lparr>ptext = js ''b''\<rparr>]\<rparr>]"]
  by (simp add: user_message_def model_message_def)

section \<open>Sending\<close>

text \<open>
  C1. When the text is not empty after trimming, no request is in flight and the key is
  not empty, \<open>sendMessage\<close> writes the conversation exactly once, setting it to the old
  conversation followed by one message of role \<open>user\<close> whose single part is the trimmed
  text; that write comes before the call of \<open>fetch\<close>, of which there is exactly one;
  and the conversation after the handler is the old one with that message appended.
\<close>

theorem sendMessage_appends_before_fetch:
  assumes "trim text \<noteq> []" and "\<not> loading s" and "apiKey s \<noteq> []"
  shows "filter is_history_write (sendMessage s (Some text))
           = [SetHistory (history s @ [\<lparr>role = User, parts = [\<lparr>ptext = trim text\<rparr>]\<rparr>])] \<and>
         SetHistory (history s @ [\<lparr>role = User, parts = [\<lparr>ptext = trim text\<rparr>]\<rparr>])
           \<in> set (takeWhile (\<lambda>e. \<not> is_fetch e) (sendMessage s (Some text))) \<and>
         length (filter is_fetch (sendMessage s (Some text))) = 1 \<and>
         history (run (sendMessage s (Some text)) s)
           = history s @ [\<lparr>role = User, parts = [\<lparr>ptext = trim text\<rparr>]\<rparr>] \<and>
         length (history (run (sendMessage s (Some text)) s)) = length (history s) + 1"
  using assms by (simp add: trace_defs user_message_def)

theorem sendMessage_appends_before_fetch_witness:
  "trim [0x20, 0x79, 0x6F, 0x20] = [0x79, 0x6F] \<and>
   \<not> loading example_state \<and>
   apiKey example_state = js ''sk-test'' \<and> js ''sk-test'' \<noteq> [] \<and>
   length (filter is_fetch (sendMessage example_state (Some [0x20, 0x79, 0x6F, 0x20]))) = 1 \<and>
   history (run (sendMessage example_state (Some [0x20, 0x79, 0x6F, 0x20])) example_state)
     = [\<lparr>role = Model, parts = [\<lparr>ptext = greeting\<rparr>]\<rparr>,
        \<lparr>role = User, parts = [\<lparr>ptext = [0x79, 0x6F]\<rparr>]\<rparr>]"
proof -
  have t: "trim [0x20, 0x79, 0x6F, 0x20] = [0x79, 0x6F]"
    by (simp add: trim_def isWhiteSpace_def)
  then have t': "trim [0x20, 0x79, 0x6F, 0x20] \<noteq> []"
    by simp
  have k: "apiKey example_state \<noteq> []"
    by (simp add: example_texts example_state_idle)
  from sendMessage_appends_before_fetch [OF t' example_state_idle(1) k] t
  show ?thesis
    by (simp add: example_texts example_state_idle model_message_def)
qed

text \<open>
  C2, as the code has it. After a send that is answered by a response that is not
  \<open>ok\<close>, whatever becomes of reading its body, the conversation is the old one followed
  by the optimistic user message and \<open>loading\<close> is false. The error string is, when the
  body is read, the fixed prefix naming the status followed by the body cut by
  \<open>safeShort\<close>: it is not empty, and its length is at most the length of the prefix (21
  code units and the digits of the status) plus the bound of 300 plus one for the
  ellipsis. When reading the body throws, the error string is the text of what was thrown.
\<close>

theorem http_failure_keeps_user_turn:
  assumes "trim text \<noteq> []" and "\<not> loading s" and "apiKey s \<noteq> []" and "\<not> ok resp"
  shows "(let s' = current (steps [Submit (Some text), Render, Settle (Resolved resp), Render]
                             (fresh s)) in
           history s' = history s @ [\<lparr>role = User, parts = [\<lparr>ptext = trim text\<rparr>]\<rparr>] \<and>
           \<not> loading s' \<and>
           error s' =
             (case resp_text resp of
                Inr body \<Rightarrow>
                  js ''OpenAI API '' @ [0x932F, 0x8AA4, 0xFF08] @ js ''HTTP ''
                    @ decimal (status resp) @ [0xFF09, 0xFF1A] @ safeShort body 300
              | Inl err \<Rightarrow> error_text err) \<and>
           (\<forall>body. resp_text resp = Inr body \<longrightarrow>
              error s' \<noteq> [] \<and>
              length (error s') \<le> 21 + length (decimal (status resp)) + 300 + 1))"
proof -
  let ?s' = "current (steps [Submit (Some text), Render, Settle (Resolved resp), Render] (fresh s))"
  have h: "history ?s' = history s @ [\<lparr>role = User, parts = [\<lparr>ptext = trim text\<rparr>]\<rparr>]"
    using assms by (simp add: steps_def fresh_def trace_defs user_message_def split: sum.splits)
  have l: "\<not> loading ?s'"
    using assms by (simp add: steps_def fresh_def trace_defs split: sum.splits)
  have e: "error ?s' =
             (case resp_text resp of
                Inr body \<Rightarrow> http_error_message (status resp) body
              | Inl err \<Rightarrow> error_text err)"
    using assms
    by (simp add: steps_def fresh_def trace_defs error_text_def http_error_message_nonempty
        split: sum.splits)
  have m: "http_error_message (status resp) body =
             js ''OpenAI API '' @ [0x932F, 0x8AA4, 0xFF08] @ js ''HTTP ''
               @ decimal (status resp) @ [0xFF09, 0xFF1A] @ safeShort body 300" for body
    by (simp add: http_error_message_def safeShort_default_def)
  have b: "error ?s' \<noteq> [] \<and> length (error ?s') \<le> 21 + length (decimal (status resp)) + 300 + 1"
    if "resp_text resp = Inr body" for body
    using that e length_http_error_message [of "status resp" body]
      http_error_message_nonempty [of "status resp" body]
    by simp
  from h l e b show ?thesis
    unfolding Let_def by (simp add: m split: sum.splits)
qed

theorem http_failure_keeps_user_turn_witness:
  "trim (js ''hi'') = js ''hi'' \<and> js ''hi'' \<noteq> [] \<and>
   \<not> loading example_state \<and> apiKey example_state = js ''sk-test'' \<and>
   \<not> ok (response_401 (js ''Unauthorized'')) \<and>
   resp_text (response_401 (js ''Unauthorized'')) = Inr (js ''Unauthorized'') \<and>
   (let s' = current (steps [Submit (Some (js ''hi'')), Render,
                             Settle (Resolved (response_401 (js ''Unauthorized''))), Render]
                        (fresh example_state)) in
      history s' = [\<lparr>role = Model, parts = [\<lparr>ptext = greeting\<rparr>]\<rparr>,
                    \<lparr>role = User, parts = [\<lparr>ptext = js ''hi''\<rparr>]\<rparr>] \<and>
      \<not> loading s' \<and>
      error s' = js ''OpenAI API '' @ [0x932F, 0x8AA4, 0xFF08] @ js ''HTTP 401''
                   @ [0xFF09, 0xFF1A] @ js ''Unauthorized'' \<and>
      length (error s') = 36)"
proof -
  let ?s' = "current (steps [Submit (Some (js ''hi'')), Render,
                             Settle (Resolved (response_401 (js ''Unauthorized''))), Render]
                        (fresh example_state))"
  have t: "trim (js ''hi'') \<noteq> []" and k: "apiKey example_state \<noteq> []"
    by (simp_all add: example_texts example_state_idle)
  have o: "\<not> ok (response_401 (js ''Unauthorized''))"
    by simp
  note r = http_failure_keeps_user_turn [OF t example_state_idle(1) k o, unfolded Let_def]
  from r have h: "history ?s' = [\<lparr>role = Model, parts = [\<lparr>ptext = greeting\<rparr>]\<rparr>,
                                 \<lparr>role = User, parts = [\<lparr>ptext = js ''hi''\<rparr>]\<rparr>]"
    by (simp add: example_texts example_state_idle model_message_def)
  from r have l: "\<not> loading ?s'"
    by simp
  from r have "error ?s' = js ''OpenAI API '' @ [0x932F, 0x8AA4, 0xFF08] @ js ''HTTP ''
                             @ decimal 401 @ [0xFF09, 0xFF1A] @ safeShort (js ''Unauthorized'') 300"
    by (simp del: decimal.simps)
  also have "\<dots> = js ''OpenAI API '' @ [0x932F, 0x8AA4, 0xFF08] @ js ''HTTP 401''
                     @ [0xFF09, 0xFF1A] @ js ''Unauthorized''"
    by (simp add: js_def digit_def safeShort_def)
  finally have e: "error ?s' = js ''OpenAI API '' @ [0x932F, 0x8AA4, 0xFF08] @ js ''HTTP 401''
                                 @ [0xFF09, 0xFF1A] @ js ''Unauthorized''" .
  have n: "length (error ?s') = 36"
    unfolding e by (simp add: js_def)
  from h l e n show ?thesis
    unfolding Let_def by (simp add: example_texts example_state_idle)
qed

text \<open>
  C2, as stated, fails: on a status 401 whose body is 301 code units long, the error
  string is longer than the truncation bound.
\<close>

theorem http_failure_error_exceeds_bound:
  "\<not> int (length (error (current (steps
        [Submit (Some (js ''hi'')), Render,
         Settle (Resolved (response_401 (replicate 301 0x61))), Render]
        (fresh example_state)))))
      \<le> safeShort_default"
  by (simp add: steps_def fresh_def trace_defs error_text_def safeShort_default_def example_defs
      http_error_message_def safeShort_def slice_def digit_def)

text \<open>
  C4, as the code has it. With an empty key, \<open>sendMessage\<close> never calls \<open>fetch\<close> and
  leaves the conversation as it is; when moreover the text is not empty after trimming
  and no request is in flight, it sets the error string to the message that asks for a
  key, which is not empty.
\<close>

theorem missing_key_blocks_dispatch:
  assumes "apiKey s = []"
  shows "filter is_fetch (sendMessage s m) = [] \<and>
         history (run (sendMessage s m) s) = history s \<and>
         (trim (case m of None \<Rightarrow> input s | Some t \<Rightarrow> t) \<noteq> [] \<and> \<not> loading s \<longrightarrow>
            error (run (sendMessage s m) s) = missing_key_message \<and>
            error (run (sendMessage s m) s) \<noteq> [])"
  using assms by (simp add: trace_defs missing_key_message_def)

theorem missing_key_blocks_dispatch_witness:
  "apiKey (mounted (js ''gpt-5'') [] Map.empty) = [] \<and>
   trim (js ''hi'') = js ''hi'' \<and> js ''hi'' \<noteq> [] \<and>
   \<not> loading (mounted (js ''gpt-5'') [] Map.empty) \<and>
   filter is_fetch (sendMessage (mounted (js ''gpt-5'') [] Map.empty) (Some (js ''hi''))) = [] \<and>
   history (run (sendMessage (mounted (js ''gpt-5'') [] Map.empty) (Some (js ''hi'')))
              (mounted (js ''gpt-5'') [] Map.empty))
     = [model_message greeting] \<and>
   error (run (sendMessage (mounted (js ''gpt-5'') [] Map.empty) (Some (js ''hi'')))
            (mounted (js ''gpt-5'') [] Map.empty))
     = missing_key_message \<and>
   length missing_key_message = 22"
proof -
  let ?s = "mounted (js ''gpt-5'') [] Map.empty"
  have k: "apiKey ?s = []" and l: "\<not> loading ?s" and h: "history ?s = [model_message greeting]"
    by (simp_all add: mounted_def on_mount_def initial_def run_def)
  from missing_key_blocks_dispatch [OF k, of "Some (js ''hi'')"] k l h
  show ?thesis
    by (simp add: example_texts) (simp add: missing_key_message_def js_def)
qed

text \<open>
  C4, as stated, fails while a request is in flight: after a send has been dispatched and
  the key field has been emptied, a further send with a non-empty text returns at the
  first guard and leaves the error string empty.
\<close>

theorem missing_key_in_flight_no_error:
  "trim (js ''hi'') \<noteq> [] \<and>
   apiKey (current (steps [Submit (Some (js ''hi'')), Render, ApiKeyChange [], Render]
                      (fresh example_state))) = [] \<and>
   error (run (sendMessage
                 (current (steps [Submit (Some (js ''hi'')), Render, ApiKeyChange [], Render]
                             (fresh example_state)))
                 (Some (js ''hi'')))
              (current (steps [Submit (Some (js ''hi'')), Render, ApiKeyChange [], Render]
                          (fresh example_state)))) = []"
  by (simp add: steps_def fresh_def trace_defs example_defs onApiKeyChange_def)

text \<open>
  C5, as the code has it. A submission by a handler whose render had \<open>loading\<close> set does
  nothing: no effect at all, hence no call of \<open>fetch\<close>, the same conversation and the
  same state. And from a session in which the count of unsettled calls agrees with
  \<open>loading\<close> and the render is not behind on it, no course of events in which the
  component renders between one submission and the next leads to more than one unsettled
  call.
\<close>

theorem in_flight_submit_is_noop:
  "(loading (rendered w) \<longrightarrow>
      sendMessage (rendered w) m = [] \<and> step (Submit m) w = w) \<and>
   (gate False w \<and> render_between_submits False es \<longrightarrow> unsettled (steps es w) \<le> 1)"
proof -
  have "sendMessage (rendered w) m = []" if "loading (rendered w)"
    using that by (simp add: sendMessage_def)
  moreover from this have "step (Submit m) w = w" if "loading (rendered w)"
    using that by (simp add: run_def)
  ultimately show ?thesis
    using gate_steps [of False w es] by blast
qed

theorem in_flight_submit_is_noop_witness:
  "loading (rendered (steps [Submit (Some (js ''hi'')), Render] (fresh example_state))) \<and>
   sendMessage (rendered (steps [Submit (Some (js ''hi'')), Render] (fresh example_state)))
     (Some (js ''again'')) = [] \<and>
   step (Submit (Some (js ''again'')))
        (steps [Submit (Some (js ''hi'')), Render] (fresh example_state))
     = steps [Submit (Some (js ''hi'')), Render] (fresh example_state) \<and>
   gate False (fresh example_state) \<and>
   render_between_submits False
     [Submit (Some (js ''hi'')), Render, Submit (Some (js ''again'')), Render, Submit None] \<and>
   unsettled (steps [Submit (Some (js ''hi'')), Render, Submit (Some (js ''again'')), Render,
                     Submit None]
                (fresh example_state)) \<le> 1"
proof -
  have l: "loading (rendered (steps [Submit (Some (js ''hi'')), Render] (fresh example_state)))"
    by (simp add: steps_def fresh_def trace_defs example_defs)
  have g: "gate False (fresh example_state)"
    by (simp add: gate_def fresh_def example_state_idle)
  have r: "render_between_submits False
     [Submit (Some (js ''hi'')), Render, Submit (Some (js ''again'')), Render, Submit None]"
    by simp
  from in_flight_submit_is_noop
         [of "steps [Submit (Some (js ''hi'')), Render] (fresh example_state)"
             "Some (js ''again'')" "[]"] l
  have a: "sendMessage (rendered (steps [Submit (Some (js ''hi'')), Render] (fresh example_state)))
             (Some (js ''again'')) = [] \<and>
           step (Submit (Some (js ''again'')))
                (steps [Submit (Some (js ''hi'')), Render] (fresh example_state))
             = steps [Submit (Some (js ''hi'')), Render] (fresh example_state)"
    by blast
  from in_flight_submit_is_noop
         [of "fresh example_state" None
             "[Submit (Some (js ''hi'')), Render, Submit (Some (js ''again'')), Render,
               Submit None]"] g r
  have b: "unsettled (steps [Submit (Some (js ''hi'')), Render, Submit (Some (js ''again'')),
                             Render, Submit None]
                        (fresh example_state)) \<le> 1"
    by blast
  from a b l g r show ?thesis
    by blast
qed

text \<open>
  C5, as stated, fails when two submissions run in the same render: the first has set
  \<open>loading\<close>, but the second handler still reads the \<open>loading\<close> of its render, passes
  the guard and calls \<open>fetch\<close> too, so that two calls are open.
\<close>

theorem same_render_two_requests:
  "loading (current (steps [Submit (Some (js ''hi''))] (fresh example_state))) \<and>
   unsettled (steps [Submit (Some (js ''hi''))] (fresh example_state)) = 1 \<and>
   length (filter is_fetch
     (sendMessage (rendered (steps [Submit (Some (js ''hi''))] (fresh example_state)))
        (Some (js ''hi'')))) = 1 \<and>
   unsettled (steps [Submit (Some (js ''hi'')), Submit (Some (js ''hi''))]
                (fresh example_state)) = 2"
  by (simp add: steps_def fresh_def trace_defs example_defs)

text \<open>
  C6. From an idle state with a key, a send whose request is answered by a successful
  response, the first completion of which has a text, leaves the conversation as the old
  one followed by exactly two entries: a message of role \<open>user\<close> whose single part is
  the trimmed text, then a message of role \<open>model\<close>, which the transformer names
  \<open>assistant\<close>, whose single part is that completion text. For the text \<open>hi\<close> and the
  completion \<open>Hello\<close> these are \<open>{user, hi}\<close> and \<open>{assistant, Hello}\<close>.
\<close>

theorem success_appends_user_then_assistant:
  assumes "trim text \<noteq> []" and "\<not> loading s" and "apiKey s \<noteq> []"
    and "ok resp" and "resp_json resp = Inr data" and "first_content data = Some reply"
  shows "(let s' = current (steps [Submit (Some text), Render, Settle (Resolved resp), Render]
                             (fresh s)) in
           history s' = history s @ [\<lparr>role = User, parts = [\<lparr>ptext = trim text\<rparr>]\<rparr>,
                                     \<lparr>role = Model, parts = [\<lparr>ptext = reply\<rparr>]\<rparr>] \<and>
           length (history s') = length (history s) + 2 \<and>
           drop (length (history s)) (toOpenAIMessages (history s'))
             = [\<lparr>oa_role = js ''user'', content = trim text\<rparr>,
                \<lparr>oa_role = js ''assistant'', content = reply\<rparr>])"
proof -
  let ?s' = "current (steps [Submit (Some text), Render, Settle (Resolved resp), Render] (fresh s))"
  have h: "history ?s' = history s @ [\<lparr>role = User, parts = [\<lparr>ptext = trim text\<rparr>]\<rparr>,
                                      \<lparr>role = Model, parts = [\<lparr>ptext = reply\<rparr>]\<rparr>]"
    using assms
    by (simp add: steps_def fresh_def trace_defs user_message_def model_message_def)
  have "drop (length (history s)) (toOpenAIMessages (history ?s'))
          = [\<lparr>oa_role = js ''user'', content = trim text\<rparr>,
             \<lparr>oa_role = js ''assistant'', content = reply\<rparr>]"
    unfolding h by (simp add: toOpenAIMessages_def join_def)
  with h show ?thesis
    unfolding Let_def by simp
qed

theorem success_appends_user_then_assistant_witness:
  "trim (js ''hi'') = js ''hi'' \<and> js ''hi'' \<noteq> [] \<and>
   \<not> loading example_state \<and> apiKey example_state = js ''sk-test'' \<and>
   ok (response_200 (Some \<lparr>choices = Some [\<lparr>ch_message = Some \<lparr>cm_content = Some (js ''Hello'')\<rparr>\<rparr>]\<rparr>)) \<and>
   first_content (Some \<lparr>choices = Some [\<lparr>ch_message = Some \<lparr>cm_content = Some (js ''Hello'')\<rparr>\<rparr>]\<rparr>)
     = Some (js ''Hello'') \<and>
   history (current (steps
      [Submit (Some (js ''hi'')), Render,
       Settle (Resolved (response_200
         (Some \<lparr>choices = Some [\<lparr>ch_message = Some \<lparr>cm_content = Some (js ''Hello'')\<rparr>\<rparr>]\<rparr>))),
       Render]
      (fresh example_state)))
     = [\<lparr>role = Model, parts = [\<lparr>ptext = greeting\<rparr>]\<rparr>,
        \<lparr>role = User, parts = [\<lparr>ptext = js ''hi''\<rparr>]\<rparr>,
        \<lparr>role = Model, parts = [\<lparr>ptext = js ''Hello''\<rparr>]\<rparr>]"
proof -
  let ?data = "Some \<lparr>choices = Some [\<lparr>ch_message = Some \<lparr>cm_content = Some (js ''Hello'')\<rparr>\<rparr>]\<rparr>"
  have t: "trim (js ''hi'') \<noteq> []" and k: "apiKey example_state \<noteq> []"
    by (simp_all add: example_texts example_state_idle)
  have o: "ok (response_200 ?data)" and j: "resp_json (response_200 ?data) = Inr ?data"
    by simp_all
  have c: "first_content ?data = Some (js ''Hello'')"
    by (simp add: first_content_def first_def)
  from success_appends_user_then_assistant [OF t example_state_idle(1) k o j c] c
  show ?thesis
    by (auto simp: Let_def example_texts example_state_idle model_message_def)
qed

text \<open>
  C7. Whatever the outcome of the request (the reply, a response that is not \<open>ok\<close>, a
  body that cannot be read or parsed, a rejected \<open>fetch\<close>), the continuation of
  \<open>sendMessage\<close> ends by setting \<open>loading\<close> to false, and \<open>loading\<close> is false in
  the state it leaves.
\<close>

theorem settled_clears_loading:
  "loading (run (sendMessage_settled r) s) = False \<and>
   last (sendMessage_settled r) = SetLoading False"
  by (simp add: sendMessage_settled_def run_def split: sum.splits)

text \<open>
  C8. A successful response in which the content of the first completion is absent is no
  error: the continuation appends a message of role \<open>model\<close> whose single part is the
  text \<open>[No content]\<close> and sets no error, so that after the send the conversation ends
  with the user message and that placeholder message, and the error string is empty.
\<close>

theorem absent_content_placeholder:
  assumes "trim text \<noteq> []" and "\<not> loading s" and "apiKey s \<noteq> []"
    and "ok resp" and "resp_json resp = Inr data" and "first_content data = None"
  shows "sendMessage_settled (Resolved resp)
           = [UpdateHistory
                (\<lambda>h. h @ [\<lparr>role = Model, parts = [\<lparr>ptext = js ''[No content]''\<rparr>]\<rparr>]),
              SetLoading False] \<and>
         (let s' = current (steps [Submit (Some text), Render, Settle (Resolved resp), Render]
                              (fresh s)) in
            history s' = history s @ [\<lparr>role = User, parts = [\<lparr>ptext = trim text\<rparr>]\<rparr>,
                                      \<lparr>role = Model, parts = [\<lparr>ptext = js ''[No content]''\<rparr>]\<rparr>] \<and>
            error s' = [])"
  using assms
  by (simp add: steps_def fresh_def trace_defs no_content_def user_message_def model_message_def)

theorem absent_content_placeholder_witness:
  "trim (js ''hi'') = js ''hi'' \<and> js ''hi'' \<noteq> [] \<and>
   \<not> loading example_state \<and> apiKey example_state = js ''sk-test'' \<and>
   ok (response_200 (Some \<lparr>choices = Some [\<lparr>ch_message = Some \<lparr>cm_content = None\<rparr>\<rparr>]\<rparr>)) \<and>
   first_content (Some \<lparr>choices = Some [\<lparr>ch_message = Some \<lparr>cm_content = None\<rparr>\<rparr>]\<rparr>) = None \<and>
   (let s' = current (steps
        [Submit (Some (js ''hi'')), Render,
         Settle (Resolved (response_200
           (Some \<lparr>choices = Some [\<lparr>ch_message = Some \<lparr>cm_content = None\<rparr>\<rparr>]\<rparr>))),
         Render]
        (fresh example_state)) in
      history s' = [\<lparr>role = Model, parts = [\<lparr>ptext = greeting\<rparr>]\<rparr>,
                    \<lparr>role = User, parts = [\<lparr>ptext = js ''hi''\<rparr>]\<rparr>,
                    \<lparr>role = Model, parts = [\<lparr>ptext = js ''[No content]''\<rparr>]\<rparr>] \<and>
      error s' = [])"
proof -
  let ?data = "Some \<lparr>choices = Some [\<lparr>ch_message = Some \<lparr>cm_content = None\<rparr>\<rparr>]\<rparr>"
  have t: "trim (js ''hi'') \<noteq> []" and k: "apiKey example_state \<noteq> []"
    by (simp_all add: example_texts example_state_idle)
  have o: "ok (response_200 ?data)" and j: "resp_json (response_200 ?data) = Inr ?data"
    by simp_all
  have c: "first_content ?data = None"
    by (simp add: first_content_def first_def)
  from absent_content_placeholder [OF t example_state_idle(1) k o j c] c
  show ?thesis
    by (auto simp: Let_def example_texts example_state_idle model_message_def)
qed

section \<open>The persisted credential\<close>

text \<open>
  C9. Unticking the checkbox removes the value stored under the key's name; ticking it
  while the key in memory is not empty stores that key in the same handler; and while
  \<open>rememberKey\<close> is set, an edit of the key field sets the key in memory and stores the
  new value in the same handler.
\<close>

theorem credential_persistence:
  "localStorage (run (onRememberChange s False) s) storage_key = None \<and>
   (apiKey s \<noteq> [] \<longrightarrow>
      localStorage (run (onRememberChange s True) s) storage_key = Some (apiKey s)) \<and>
   (rememberKey s \<longrightarrow>
      apiKey (run (onApiKeyChange s v) s) = v \<and>
      localStorage (run (onApiKeyChange s v) s) storage_key = Some v)"
  by (simp add: onRememberChange_def onApiKeyChange_def run_def)

theorem credential_persistence_witness:
  "localStorage example_state storage_key = Some (js ''sk-test'') \<and>
   localStorage (run (onRememberChange example_state False) example_state) storage_key = None \<and>
   apiKey (run (onRememberChange example_state False) example_state) = js ''sk-test'' \<and>
   js ''sk-test'' \<noteq> [] \<and>
   localStorage (run (onRememberChange (run (onRememberChange example_state False) example_state) True)
                   (run (onRememberChange example_state False) example_state)) storage_key
     = Some (js ''sk-test'') \<and>
   rememberKey example_state \<and>
   localStorage (run (onApiKeyChange example_state (js ''sk-new'')) example_state) storage_key
     = Some (js ''sk-new'')"
proof -
  let ?off = "run (onRememberChange example_state False) example_state"
  have s: "localStorage example_state storage_key = Some (js ''sk-test'')"
    by (simp add: mounted_def on_mount_def initial_def run_def)
  have a: "apiKey ?off = js ''sk-test''"
    by (simp add: onRememberChange_def mounted_def on_mount_def initial_def run_def)
  from credential_persistence [of example_state "js ''sk-new''"]
       credential_persistence [of ?off "js ''sk-new''"] s a
  show ?thesis
    by (simp add: example_texts example_state_idle)
qed

end
